theory Spec2Isabelle
  imports Complex_Main
begin

section \<open>JavaScript values\<close>

text \<open>
  The bridge handles JSON documents: the body of an inbound request, the query string
  parsed by the web framework, and the documents the upstream GraphQL endpoint returns.
  The handlers never look at the type of a value; they only test it for truthiness,
  read named properties from it, and compare one value with zero. The model therefore
  keeps the dynamically typed value and writes the language's rules for these
  operations out.

  A number is a finite rational (every finite double is one), or one of the three
  special values.
\<close>

datatype jsnum = Num rat | NaN | PosInf | NegInf

datatype jsval =
    JUndef
  | JNull
  | JBool bool
  | JNum jsnum
  | JStr string
  | JArr "jsval list"
  | JObj "(string \<times> jsval) list"

text \<open>Values thrown inside a handler. None of them reaches the caller.\<close>

datatype error =
    MissingToken string
  | FetchRejected
  | InvalidJson
  | HttpError nat
  | GraphQLError jsval
  | TypeError

text \<open>ToBoolean: \<open>undefined\<close>, \<open>null\<close>, \<open>false\<close>, zero, NaN and the empty string are falsy.\<close>

fun truthy :: "jsval \<Rightarrow> bool" where
  "truthy JUndef = False"
| "truthy JNull = False"
| "truthy (JBool b) = b"
| "truthy (JNum (Num r)) = (r \<noteq> 0)"
| "truthy (JNum NaN) = False"
| "truthy (JNum PosInf) = True"
| "truthy (JNum NegInf) = True"
| "truthy (JStr s) = (s \<noteq> [])"
| "truthy (JArr xs) = True"
| "truthy (JObj kvs) = True"

text \<open>The operator \<open>a || b\<close>.\<close>

definition js_or :: "jsval \<Rightarrow> jsval \<Rightarrow> jsval" where
  "js_or a b = (if truthy a then a else b)"

text \<open>The operator \<open>a ?? b\<close>: only \<open>undefined\<close> and \<open>null\<close> give way to \<open>b\<close>.\<close>

definition nullish :: "jsval \<Rightarrow> bool" where
  "nullish v = (v = JUndef \<or> v = JNull)"

definition js_coalesce :: "jsval \<Rightarrow> jsval \<Rightarrow> jsval" where
  "js_coalesce a b = (if nullish a then b else a)"

text \<open>
  Reading a property \<open>v.k\<close> from a value that is neither \<open>undefined\<close> nor \<open>null\<close>.
  An object is the list of its own properties, each name once (a parsed JSON document
  has no duplicates). Arrays and strings have a \<open>length\<close>; every
  other name the handlers read (\<open>product\<close>, \<open>variants\<close>, \<open>edges\<close>, \<open>node\<close>, \<open>id\<close>,
  \<open>totalInventory\<close>, \<open>orderCreate\<close>, \<open>userErrors\<close>, \<open>order\<close>, \<open>errors\<close>, \<open>data\<close>,
  \<open>message\<close>, \<open>productId\<close>, \<open>quantity\<close>, \<open>email\<close>, \<open>note\<close>) is on no built-in
  prototype, so it reads as \<open>undefined\<close> where it is not an own property.
\<close>

fun read_prop :: "jsval \<Rightarrow> string \<Rightarrow> jsval" where
  "read_prop (JObj kvs) k = (case map_of kvs k of Some v \<Rightarrow> v | None \<Rightarrow> JUndef)"
| "read_prop (JArr xs) k = (if k = ''length'' then JNum (Num (of_nat (length xs))) else JUndef)"
| "read_prop (JStr s) k = (if k = ''length'' then JNum (Num (of_nat (length s))) else JUndef)"
| "read_prop v k = JUndef"

text \<open>Reading \<open>v.k\<close> in general: on \<open>undefined\<close> and \<open>null\<close> it throws a TypeError.\<close>

definition get :: "jsval \<Rightarrow> string \<Rightarrow> error + jsval" where
  "get v k = (if nullish v then Inl TypeError else Inr (read_prop v k))"

text \<open>The element read \<open>v[0]\<close>.\<close>

fun elem0 :: "jsval \<Rightarrow> jsval" where
  "elem0 (JArr xs) = (case xs of [] \<Rightarrow> JUndef | x # _ \<Rightarrow> x)"
| "elem0 (JStr s) = (case s of [] \<Rightarrow> JUndef | c # _ \<Rightarrow> JStr [c])"
| "elem0 (JObj kvs) = read_prop (JObj kvs) ''0''"
| "elem0 v = JUndef"

definition get0 :: "jsval \<Rightarrow> error + jsval" where
  "get0 v = (if nullish v then Inl TypeError else Inr (elem0 v))"

text \<open>Sequencing of steps that may throw: the first throw ends the sequence.\<close>

definition bindE :: "error + 'a \<Rightarrow> ('a \<Rightarrow> error + 'b) \<Rightarrow> error + 'b" where
  "bindE m f = (case m of Inl e \<Rightarrow> Inl e | Inr x \<Rightarrow> f x)"

text \<open>
  Conversions. Two functions of the language runtime work on the text of numbers:
  StringToNumber, which reads a string as a number (NaN where it is not one), and
  Number::toString, which prints a number. Both are total and neither throws; they are
  taken as parameters.
\<close>

record runtime =
  string_to_number :: "string \<Rightarrow> jsnum"
  number_to_string :: "jsnum \<Rightarrow> string"

definition has_own :: "(string \<times> jsval) list \<Rightarrow> string \<Rightarrow> bool" where
  "has_own kvs k = (map_of kvs k \<noteq> None)"

fun join_comma :: "string list \<Rightarrow> string" where
  "join_comma [] = []"
| "join_comma [s] = s"
| "join_comma (s # t # ss) = s @ '','' @ join_comma (t # ss)"

fun sequenceE :: "(error + 'a) list \<Rightarrow> error + 'a list" where
  "sequenceE [] = Inr []"
| "sequenceE (m # ms) = bindE m (\<lambda>x. bindE (sequenceE ms) (\<lambda>xs. Inr (x # xs)))"

text \<open>
  ToString. An array prints as its elements joined by commas, \<open>undefined\<close> and
  \<open>null\<close> elements as nothing. An object of a JSON document has no callable member:
  where it has an own member \<open>toString\<close>, that member hides the built-in method, no
  conversion method is left that returns a primitive, and the conversion throws a
  TypeError; otherwise the built-in method prints \<open>[object Object]\<close>.
\<close>

fun to_string :: "runtime \<Rightarrow> jsval \<Rightarrow> error + string" where
  "to_string rt JUndef = Inr ''undefined''"
| "to_string rt JNull = Inr ''null''"
| "to_string rt (JBool b) = Inr (if b then ''true'' else ''false'')"
| "to_string rt (JNum n) = Inr (number_to_string rt n)"
| "to_string rt (JStr s) = Inr s"
| "to_string rt (JArr xs) =
     bindE (sequenceE (map (\<lambda>x. if nullish x then Inr [] else to_string rt x) xs))
           (\<lambda>ss. Inr (join_comma ss))"
| "to_string rt (JObj kvs) =
     (if has_own kvs ''toString'' then Inl TypeError else Inr ''[object Object]'')"

text \<open>
  ToNumber, after ToPrimitive. Arrays and objects are converted to a primitive first:
  their \<open>valueOf\<close> returns the object itself, so the primitive is the string that
  ToString gives, and the TypeError of that conversion is the TypeError of this one.
\<close>

fun to_number :: "runtime \<Rightarrow> jsval \<Rightarrow> error + jsnum" where
  "to_number rt JUndef = Inr NaN"
| "to_number rt JNull = Inr (Num 0)"
| "to_number rt (JBool b) = Inr (if b then Num 1 else Num 0)"
| "to_number rt (JNum n) = Inr n"
| "to_number rt (JStr s) = Inr (string_to_number rt s)"
| "to_number rt (JArr xs) =
     bindE (to_string rt (JArr xs)) (\<lambda>s. Inr (string_to_number rt s))"
| "to_number rt (JObj kvs) =
     bindE (to_string rt (JObj kvs)) (\<lambda>s. Inr (string_to_number rt s))"

fun num_gt_zero :: "jsnum \<Rightarrow> bool" where
  "num_gt_zero (Num r) = (0 < r)"
| "num_gt_zero PosInf = True"
| "num_gt_zero NaN = False"
| "num_gt_zero NegInf = False"

text \<open>
  The comparison \<open>v > 0\<close>. The right operand is a number, so the left one is converted
  to a number and the comparison is numeric; NaN compares false. Where the conversion
  throws, the comparison throws.
\<close>

definition js_gt_zero :: "runtime \<Rightarrow> jsval \<Rightarrow> error + bool" where
  "js_gt_zero rt v = bindE (to_number rt v) (\<lambda>n. Inr (num_gt_zero n))"

section \<open>Configuration and start-up\<close>

text \<open>
  The repository carries two copies of the server, \<open>src/server.js\<close> and an older one
  (\<open>src/unnamed/part_000\<close>). They are the same program up to four places, each of which
  is a case distinction on the variant below.
\<close>

datatype variant = Server_js | Part_000

type_synonym env = "string \<Rightarrow> string option"

definition env_val :: "env \<Rightarrow> string \<Rightarrow> jsval" where
  "env_val e k = (case e k of None \<Rightarrow> JUndef | Some s \<Rightarrow> JStr s)"

record config =
  SHOPIFY_DOMAIN :: jsval
  ADMIN_TOKEN :: jsval
  API_VERSION :: string

text \<open>
  \<open>src/server.js\<close> reads the token as it is in the environment; the other copy
  replaces an unset token by the empty string.
\<close>

definition load_config :: "variant \<Rightarrow> env \<Rightarrow> config" where
  "load_config v e =
     \<lparr> SHOPIFY_DOMAIN = js_or (env_val e ''SHOPIFY_DOMAIN'') (JStr ''edd11f-2.myshopify.com''),
       ADMIN_TOKEN = (case v of
                        Server_js \<Rightarrow> env_val e ''SHOPIFY_ADMIN_TOKEN''
                      | Part_000 \<Rightarrow> js_or (env_val e ''SHOPIFY_ADMIN_TOKEN'') (JStr [])),
       API_VERSION = ''2024-07'' \<rparr>"

text \<open>
  The module's top level: it reads the configuration, registers the two routes and
  listens. No statement of it looks at the token.
\<close>

record server =
  server_config :: config
  PORT :: jsval

definition start_server :: "variant \<Rightarrow> env \<Rightarrow> server" where
  "start_server v e =
     \<lparr> server_config = load_config v e,
       PORT = js_or (env_val e ''PORT'') (JNum (Num 3000)) \<rparr>"

section \<open>The upstream call\<close>

text \<open>
  One outbound request: the URL, the access-token header, and the two members of the
  JSON body. The upstream is a deterministic function of the requests made so far and
  of the present one; the list of requests made is the record of what the bridge sent.
\<close>

record gql_request =
  url :: "jsval list"
  access_token :: jsval
  query :: string
  variables :: jsval

text \<open>
  What \<open>fetch\<close> and \<open>res.json()\<close> give back: the request fails (no response at all),
  or a response arrives with a status and a body that may not be JSON.
\<close>

datatype fetch_outcome = Rejected | Responded nat "jsval option"

type_synonym upstream = "gql_request list \<Rightarrow> gql_request \<Rightarrow> fetch_outcome"

text \<open>\<open>res.ok\<close> of the HTTP client: the status is in the 200 range.\<close>

definition ok :: "nat \<Rightarrow> bool" where
  "ok st = (200 \<le> st \<and> st < 300)"

definition missing_token_message :: "variant \<Rightarrow> string" where
  "missing_token_message v =
     (case v of
        Server_js \<Rightarrow> ''Missing SHOPIFY_ADMIN_TOKEN (Admin API token)''
      | Part_000 \<Rightarrow> ''Missing SHOPIFY_ADMIN_TOKEN env var'')"

text \<open>
  The URL is the template \<open>https://${SHOPIFY_DOMAIN}/admin/api/${API_VERSION}/graphql.json\<close>,
  kept as its pieces.
\<close>

definition endpoint :: "config \<Rightarrow> jsval list" where
  "endpoint cfg =
     [JStr ''https://'', SHOPIFY_DOMAIN cfg, JStr ''/admin/api/'', JStr (API_VERSION cfg),
      JStr ''/graphql.json'']"

text \<open>
  The body of the response is read before the status is looked at; then a status
  outside the 200 range throws, then a truthy \<open>errors\<close> member throws (with the first
  error's message, or a fixed text), and otherwise the \<open>data\<close> member is the result.
\<close>

definition graphql_error_message :: "jsval \<Rightarrow> jsval" where
  "graphql_error_message errs =
     js_or (if nullish (elem0 errs) then JUndef else read_prop (elem0 errs) ''message'')
           (JStr ''Shopify GraphQL error'')"

definition read_response :: "fetch_outcome \<Rightarrow> error + jsval" where
  "read_response out =
     (case out of
        Rejected \<Rightarrow> Inl FetchRejected
      | Responded st None \<Rightarrow> Inl InvalidJson
      | Responded st (Some json) \<Rightarrow>
          if \<not> ok st then Inl (HttpError st)
          else bindE (get json ''errors'') (\<lambda>errs.
                 if truthy errs then Inl (GraphQLError (graphql_error_message errs))
                 else get json ''data''))"

definition shopifyAdminGraphQL ::
  "variant \<Rightarrow> config \<Rightarrow> upstream \<Rightarrow> gql_request list \<Rightarrow> string \<Rightarrow> jsval
     \<Rightarrow> (error + jsval) \<times> gql_request list" where
  "shopifyAdminGraphQL v cfg up sent q vars =
     (if \<not> truthy (ADMIN_TOKEN cfg) then (Inl (MissingToken (missing_token_message v)), sent)
      else
        let req = \<lparr> url = endpoint cfg, access_token = ADMIN_TOKEN cfg,
                    query = q, variables = vars \<rparr>
        in (read_response (up sent req), sent @ [req]))"

section \<open>The two handlers\<close>

record request =
  req_query :: jsval
  req_body :: jsval

record response =
  status :: nat
  json :: jsval

definition internal_error :: response where
  "internal_error = \<lparr> status = 500, json = JObj [(''error'', JStr ''Internal error'')] \<rparr>"

text \<open>The \<open>catch\<close> block of both handlers: whatever was thrown, the caller gets a 500.\<close>

definition catch_all :: "(error + response) \<times> gql_request list \<Rightarrow> response \<times> gql_request list" where
  "catch_all r = (case fst r of Inl e \<Rightarrow> (internal_error, snd r) | Inr res \<Rightarrow> (res, snd r))"

subsection \<open>GET /api/stock\<close>

text \<open>The GraphQL documents are kept with their line breaks and indentation removed.\<close>

definition stock_query :: string where
  "stock_query = ''query getStock($id: ID!) { product(id: $id) { id totalInventory } }''"

definition stock_body :: "jsval \<Rightarrow> jsval \<Rightarrow> bool \<Rightarrow> jsval" where
  "stock_body productId qty available =
     JObj [(''productId'', productId), (''quantity'', qty), (''available'', JBool available)]"

text \<open>
  The body of the answer is built before it is sent: the comparison \<open>qty > 0\<close> is
  inside the \<open>try\<close> block, and a throw of it ends in the \<open>catch\<close> block.
\<close>

definition get_stock_try ::
  "variant \<Rightarrow> runtime \<Rightarrow> config \<Rightarrow> upstream \<Rightarrow> request
     \<Rightarrow> (error + response) \<times> gql_request list" where
  "get_stock_try v rt cfg up req =
     (case get (req_query req) ''productId'' of
        Inl e \<Rightarrow> (Inl e, [])
      | Inr productId \<Rightarrow>
          if \<not> truthy productId
          then (Inr \<lparr> status = 400, json = JObj [(''error'', JStr ''Missing productId'')] \<rparr>, [])
          else
            (case shopifyAdminGraphQL v cfg up [] stock_query (JObj [(''id'', productId)]) of
               (Inl e, sent) \<Rightarrow> (Inl e, sent)
             | (Inr data, sent) \<Rightarrow>
                 (bindE (get data ''product'') (\<lambda>product.
                    if \<not> truthy product
                    then Inr \<lparr> status = 404, json = JObj [(''error'', JStr ''Product not found'')] \<rparr>
                    else bindE (get product ''totalInventory'') (\<lambda>ti.
                      let qty = js_coalesce ti (JNum (Num 0))
                      in bindE (js_gt_zero rt qty) (\<lambda>available.
                           Inr \<lparr> status = 200, json = stock_body productId qty available \<rparr>))),
                  sent)))"

definition get_stock ::
  "variant \<Rightarrow> runtime \<Rightarrow> config \<Rightarrow> upstream \<Rightarrow> request
     \<Rightarrow> response \<times> gql_request list" where
  "get_stock v rt cfg up req = catch_all (get_stock_try v rt cfg up req)"

subsection \<open>POST /api/create-order\<close>

definition variant_query :: string where
  "variant_query =
     ''query getVariant($id: ID!) { product(id: $id) { id title variants(first: 1) { edges { node { id } } } } }''"

text \<open>
  The mutation document and the name of its variable are where the two copies differ:
  \<open>src/server.js\<close> sends \<open>order\<close> of type \<open>OrderCreateOrderInput\<close>, the other copy
  \<open>input\<close> of type \<open>OrderInput\<close>.
\<close>

definition order_mutation :: "variant \<Rightarrow> string" where
  "order_mutation v =
     (case v of
        Server_js \<Rightarrow> ''mutation createOrder($order: OrderCreateOrderInput!) { orderCreate(order: $order) { order { id name email totalPriceSet { shopMoney { amount currencyCode } } } userErrors { field message } } }''
      | Part_000 \<Rightarrow> ''mutation createOrder($input: OrderInput!) { orderCreate(input: $input) { order { id name email totalPriceSet { shopMoney { amount currencyCode } } } userErrors { field message } } }'')"

definition order_variable :: "variant \<Rightarrow> string" where
  "order_variable v = (case v of Server_js \<Rightarrow> ''order'' | Part_000 \<Rightarrow> ''input'')"

definition orderInput :: "jsval \<Rightarrow> jsval \<Rightarrow> jsval \<Rightarrow> jsval \<Rightarrow> jsval" where
  "orderInput email quantity variantId note =
     JObj [(''email'', js_or email (JStr ''no-email@example.com'')),
           (''lineItems'', JArr [JObj [(''quantity'', quantity), (''variantId'', variantId)]]),
           (''tags'', JArr [JStr ''WeChat Mini Program'']),
           (''note'', js_or note (JStr ''Order from WeChat Mini Program'')),
           (''financialStatus'', JStr ''PAID'')]"

text \<open>
  The test \<open>!product || !product.variants.edges.length\<close>: \<open>Inr True\<close> when the product
  or its first variant is missing, a TypeError when \<open>variants\<close> or \<open>edges\<close> is.
\<close>

definition no_variant :: "jsval \<Rightarrow> error + bool" where
  "no_variant product =
     (if \<not> truthy product then Inr True
      else bindE (get product ''variants'') (\<lambda>variants.
           bindE (get variants ''edges'') (\<lambda>edges.
           bindE (get edges ''length'') (\<lambda>len. Inr (\<not> truthy len)))))"

text \<open>The path \<open>product.variants.edges[0].node.id\<close>.\<close>

definition first_variant_id :: "jsval \<Rightarrow> error + jsval" where
  "first_variant_id product =
     bindE (get product ''variants'') (\<lambda>variants.
     bindE (get variants ''edges'') (\<lambda>edges.
     bindE (get0 edges) (\<lambda>edge.
     bindE (get edge ''node'') (\<lambda>node. get node ''id''))))"

text \<open>
  What the handler answers once the mutation has returned: the test
  \<open>result.userErrors && result.userErrors.length\<close>, then either the 400 that carries
  the list or the 200 that carries the order.
\<close>

definition order_response :: "jsval \<Rightarrow> error + response" where
  "order_response orderData =
     bindE (get orderData ''orderCreate'') (\<lambda>result.
     bindE (get result ''userErrors'') (\<lambda>userErrors.
       if truthy userErrors \<and> truthy (read_prop userErrors ''length'')
       then Inr \<lparr> status = 400,
                  json = JObj [(''error'', JStr ''Shopify order error''),
                               (''details'', userErrors)] \<rparr>
       else Inr \<lparr> status = 200,
                  json = JObj [(''success'', JBool True), (''order'', read_prop result ''order'')] \<rparr>))"

definition create_order_try ::
  "variant \<Rightarrow> config \<Rightarrow> upstream \<Rightarrow> request \<Rightarrow> (error + response) \<times> gql_request list" where
  "create_order_try v cfg up req =
     (let body = js_or (req_body req) (JObj []);
          productId = read_prop body ''productId'';
          quantity = read_prop body ''quantity'';
          email = read_prop body ''email'';
          note = read_prop body ''note''
      in
        if \<not> truthy productId \<or> \<not> truthy quantity
        then (Inr \<lparr> status = 400,
                    json = JObj [(''error'', JStr ''Missing productId or quantity'')] \<rparr>, [])
        else
          (case shopifyAdminGraphQL v cfg up [] variant_query (JObj [(''id'', productId)]) of
             (Inl e, sent) \<Rightarrow> (Inl e, sent)
           | (Inr varData, sent) \<Rightarrow>
               (case bindE (get varData ''product'') (\<lambda>product.
                       bindE (no_variant product) (\<lambda>missing.
                         if missing then Inr None
                         else bindE (first_variant_id product) (\<lambda>variantId. Inr (Some variantId)))) of
                  Inl e \<Rightarrow> (Inl e, sent)
                | Inr None \<Rightarrow>
                    (Inr \<lparr> status = 404,
                           json = JObj [(''error'', JStr ''Product or variant not found'')] \<rparr>, sent)
                | Inr (Some variantId) \<Rightarrow>
                    (case shopifyAdminGraphQL v cfg up sent (order_mutation v)
                            (JObj [(order_variable v, orderInput email quantity variantId note)]) of
                       (Inl e, sent') \<Rightarrow> (Inl e, sent')
                     | (Inr orderData, sent') \<Rightarrow> (order_response orderData, sent')))))"

definition create_order ::
  "variant \<Rightarrow> config \<Rightarrow> upstream \<Rightarrow> request \<Rightarrow> response \<times> gql_request list" where
  "create_order v cfg up req = catch_all (create_order_try v cfg up req)"

section \<open>Properties of the values\<close>

text \<open>A JSON number that is a whole number and not negative.\<close>

definition nonneg_integer :: "jsval \<Rightarrow> bool" where
  "nonneg_integer v =
     (case v of JNum (Num r) \<Rightarrow> 0 \<le> r \<and> of_int (floor r) = r | _ \<Rightarrow> False)"

text \<open>
  The values that cannot be converted to a number: an object with an own member
  \<open>toString\<close>, and an array that holds such a value.
\<close>

fun unconvertible :: "jsval \<Rightarrow> bool" where
  "unconvertible (JObj kvs) = has_own kvs ''toString''"
| "unconvertible (JArr xs) = list_ex unconvertible xs"
| "unconvertible v = False"

text \<open>
  What an outbound request carries apart from the GraphQL document and the names of
  its variables: the URL, the token, and the values of the variables.
\<close>

definition variable_values :: "gql_request \<Rightarrow> jsval list" where
  "variable_values r = (case variables r of JObj kvs \<Rightarrow> map snd kvs | _ \<Rightarrow> [])"

type_synonym request_content = "jsval list \<times> jsval \<times> jsval list"

definition content :: "gql_request \<Rightarrow> request_content" where
  "content r = (url r, access_token r, variable_values r)"

text \<open>
  An upstream that does not read the GraphQL document or the names of the variables:
  its outcome is a function of the content of the requests made so far and of the
  present one. An upstream whose answers are fixed in advance is of this kind.
\<close>

definition document_blind ::
  "(request_content list \<Rightarrow> request_content \<Rightarrow> fetch_outcome) \<Rightarrow> upstream" where
  "document_blind f sent r = f (map content sent) (content r)"

section \<open>Example runs\<close>

text \<open>
  The example runs convert no string to a number and print no number, so the two
  functions of the runtime are never consulted in them; these stand in their place.
\<close>

definition example_runtime :: runtime where
  "example_runtime = \<lparr> string_to_number = (\<lambda>s. NaN), number_to_string = (\<lambda>n. []) \<rparr>"

text \<open>
  An environment with a token and one without, and upstreams that answer with a fixed
  document: one for the stock query, and one that answers the variant query first and
  the mutation second.
\<close>

definition env_with_token :: env where
  "env_with_token k = (if k = ''SHOPIFY_ADMIN_TOKEN'' then Some ''shpat_0123'' else None)"

definition env_without_token :: env where
  "env_without_token k = None"

definition stock_upstream :: "jsval \<Rightarrow> upstream" where
  "stock_upstream product sent r =
     Responded 200 (Some (JObj [(''data'', JObj [(''product'', product)])]))"

definition order_upstream :: "jsval \<Rightarrow> jsval \<Rightarrow> upstream" where
  "order_upstream product result sent r =
     (if sent = []
      then Responded 200 (Some (JObj [(''data'', JObj [(''product'', product)])]))
      else Responded 200 (Some (JObj [(''data'', JObj [(''orderCreate'', result)])])))"

text \<open>The same answers, given without reading the document.\<close>

definition order_outcomes ::
  "jsval \<Rightarrow> jsval \<Rightarrow> request_content list \<Rightarrow> request_content \<Rightarrow> fetch_outcome" where
  "order_outcomes product result sent c =
     (if sent = []
      then Responded 200 (Some (JObj [(''data'', JObj [(''product'', product)])]))
      else Responded 200 (Some (JObj [(''data'', JObj [(''orderCreate'', result)])])))"

text \<open>
  An upstream that reads the document, as a GraphQL server does: it answers the
  mutation of \<open>src/server.js\<close> and rejects any other second request with a top-level
  \<open>errors\<close> list.
\<close>

definition strict_upstream :: "jsval \<Rightarrow> jsval \<Rightarrow> upstream" where
  "strict_upstream product result sent r =
     (if sent = []
      then Responded 200 (Some (JObj [(''data'', JObj [(''product'', product)])]))
      else if query r = order_mutation Server_js
      then Responded 200 (Some (JObj [(''data'', JObj [(''orderCreate'', result)])]))
      else Responded 200 (Some (JObj [(''errors'',
             JArr [JObj [(''message'', JStr ''Type OrderInput is not an input type'')]])])))"

definition product_with_inventory :: "jsval \<Rightarrow> jsval" where
  "product_with_inventory ti =
     JObj [(''id'', JStr ''gid://shopify/Product/1''), (''totalInventory'', ti)]"

definition product_with_edges :: "jsval list \<Rightarrow> jsval" where
  "product_with_edges es =
     JObj [(''id'', JStr ''gid://shopify/Product/1''), (''title'', JStr ''Deck''),
           (''variants'', JObj [(''edges'', JArr es)])]"

definition one_edge :: "jsval list" where
  "one_edge = [JObj [(''node'', JObj [(''id'', JStr ''gid://shopify/ProductVariant/9'')])]]"

definition created_order :: jsval where
  "created_order =
     JObj [(''order'', JObj [(''id'', JStr ''gid://shopify/Order/5''), (''name'', JStr ''#1001'')]),
           (''userErrors'', JArr [])]"

definition rejected_order :: jsval where
  "rejected_order =
     JObj [(''order'', JNull),
           (''userErrors'', JArr [JObj [(''field'', JArr [JStr ''lineItems'']),
                                        (''message'', JStr ''Quantity is invalid'')]])]"

definition stock_request :: request where
  "stock_request =
     \<lparr> req_query = JObj [(''productId'', JStr ''gid://shopify/Product/1'')],
       req_body = JUndef \<rparr>"

definition order_request :: "(string \<times> jsval) list \<Rightarrow> request" where
  "order_request kvs = \<lparr> req_query = JObj [], req_body = JObj kvs \<rparr>"

section \<open>Facts about the upstream call\<close>

lemma shopifyAdminGraphQL_no_token:
  "\<not> truthy (ADMIN_TOKEN cfg) \<Longrightarrow>
     shopifyAdminGraphQL v cfg up sent q vars = (Inl (MissingToken (missing_token_message v)), sent)"
  by (simp add: shopifyAdminGraphQL_def)

lemma shopifyAdminGraphQL_token:
  "truthy (ADMIN_TOKEN cfg) \<Longrightarrow>
     shopifyAdminGraphQL v cfg up sent q vars =
       (read_response (up sent \<lparr> url = endpoint cfg, access_token = ADMIN_TOKEN cfg,
                                  query = q, variables = vars \<rparr>),
        sent @ [\<lparr> url = endpoint cfg, access_token = ADMIN_TOKEN cfg,
                   query = q, variables = vars \<rparr>])"
  by (simp add: shopifyAdminGraphQL_def Let_def)

lemma shopifyAdminGraphQL_Inr_token:
  "fst (shopifyAdminGraphQL v cfg up sent q vars) = Inr d \<Longrightarrow> truthy (ADMIN_TOKEN cfg)"
  by (cases "truthy (ADMIN_TOKEN cfg)") (simp_all add: shopifyAdminGraphQL_no_token)

lemma get_truthy: "truthy x \<Longrightarrow> get x k = Inr (read_prop x k)"
  by (cases x) (simp_all add: get_def nullish_def)

lemma get_Inr: "get x k = Inr y \<Longrightarrow> y = read_prop x k"
  by (simp add: get_def split: if_splits)

lemma read_prop_array_receiver: "read_prop x k = JArr xs \<Longrightarrow> \<not> nullish x"
  by (cases x) (simp_all add: nullish_def)

lemma no_variant_empty:
  assumes "read_prop (read_prop product ''variants'') ''edges'' = JArr []"
  shows "no_variant product = Inr True"
proof -
  have v: "\<not> nullish (read_prop product ''variants'')"
    using assms by (rule read_prop_array_receiver)
  then have "read_prop product ''variants'' \<noteq> JUndef" by (simp add: nullish_def)
  then have p: "\<not> nullish product" by (cases product) (auto simp: nullish_def)
  show ?thesis using assms v p
    by (simp add: no_variant_def bindE_def get_def nullish_def)
qed

text \<open>The equations that evaluate a run on explicit inputs.\<close>

lemmas run_defs =
  create_order_def create_order_try_def get_stock_def get_stock_try_def catch_all_def
  shopifyAdminGraphQL_def read_response_def ok_def bindE_def get_def get0_def nullish_def
  js_or_def js_coalesce_def Let_def no_variant_def first_variant_id_def order_response_def
  orderInput_def stock_body_def js_gt_zero_def has_own_def endpoint_def internal_error_def
  load_config_def env_val_def env_with_token_def env_without_token_def
  stock_upstream_def order_upstream_def product_with_inventory_def product_with_edges_def
  one_edge_def created_order_def rejected_order_def stock_request_def order_request_def
  order_variable_def

section \<open>Facts about the conversions\<close>

lemma sequenceE_Inl: "sequenceE ms = Inl e \<Longrightarrow> Inl e \<in> set ms"
  by (induction ms) (auto simp: bindE_def split: sum.splits)

lemma sequenceE_Inr_iff:
  "(\<exists>xs. sequenceE ms = Inr xs) \<longleftrightarrow> (\<forall>m \<in> set ms. \<exists>x. m = Inr x)"
  by (induction ms) (auto simp: bindE_def split: sum.splits)

lemma to_string_error: "to_string rt v = Inl e \<Longrightarrow> e = TypeError"
proof (induction rt v arbitrary: e rule: to_string.induct)
  case (6 rt xs)
  then obtain m where "sequenceE (map (\<lambda>x. if nullish x then Inr [] else to_string rt x) xs) = Inl e"
    by (auto simp: bindE_def split: sum.splits)
  then have "Inl e \<in> set (map (\<lambda>x. if nullish x then Inr [] else to_string rt x) xs)"
    by (rule sequenceE_Inl)
  then obtain x where "x \<in> set xs" "\<not> nullish x" "to_string rt x = Inl e"
    by (auto split: if_splits)
  then show ?case using "6.IH" by blast
qed (auto split: if_splits)

lemma to_string_defined: "(\<exists>s. to_string rt v = Inr s) \<longleftrightarrow> \<not> unconvertible v"
proof (induction rt v rule: to_string.induct)
  case (6 rt xs)
  have "(\<exists>s. to_string rt (JArr xs) = Inr s) \<longleftrightarrow>
        (\<exists>ss. sequenceE (map (\<lambda>x. if nullish x then Inr [] else to_string rt x) xs) = Inr ss)"
    by (auto simp: bindE_def split: sum.splits)
  also have "\<dots> \<longleftrightarrow> (\<forall>x \<in> set xs. nullish x \<or> (\<exists>s. to_string rt x = Inr s))"
    by (auto simp: sequenceE_Inr_iff)
  also have "\<dots> \<longleftrightarrow> (\<forall>x \<in> set xs. \<not> unconvertible x)"
  proof -
    have "nullish x \<or> (\<exists>s. to_string rt x = Inr s) \<longleftrightarrow> \<not> unconvertible x"
      if "x \<in> set xs" for x
    proof (cases "nullish x")
      case True
      then show ?thesis by (auto simp: nullish_def)
    next
      case False
      then show ?thesis using "6.IH" [OF that] by simp
    qed
    then show ?thesis by blast
  qed
  finally show ?case by (simp add: list_ex_iff)
qed auto

lemma to_number_error: "to_number rt v = Inl e \<Longrightarrow> e = TypeError"
  using to_string_error [of rt v e]
  by (cases v) (auto simp: bindE_def split: sum.splits if_splits)

lemma to_number_defined: "(\<exists>n. to_number rt v = Inr n) \<longleftrightarrow> \<not> unconvertible v"
proof (cases v)
  case (JArr xs)
  then show ?thesis
    using to_string_defined [of rt "JArr xs"] by (auto simp: bindE_def split: sum.splits)
next
  case (JObj kvs)
  then show ?thesis by (auto simp: bindE_def)
qed auto

lemma to_number_throws: "to_number rt v = Inl TypeError \<longleftrightarrow> unconvertible v"
proof -
  have "unconvertible v \<longleftrightarrow> (\<exists>e. to_number rt v = Inl e)"
    using to_number_defined [of rt v] by (cases "to_number rt v") auto
  then show ?thesis using to_number_error by blast
qed

section \<open>Stock lookup\<close>

lemma get_stock_after_lookup:
  assumes "get (req_query req) ''productId'' = Inr productId" and "truthy productId"
      and "shopifyAdminGraphQL v cfg up [] stock_query (JObj [(''id'', productId)]) = (Inr data, sent)"
      and "get data ''product'' = Inr product" and "truthy product"
      and "qty = js_coalesce (read_prop product ''totalInventory'') (JNum (Num 0))"
  shows "get_stock v rt cfg up req =
           (case to_number rt qty of
              Inl e \<Rightarrow> (\<lparr> status = 500, json = JObj [(''error'', JStr ''Internal error'')] \<rparr>, sent)
            | Inr n \<Rightarrow>
                (\<lparr> status = 200,
                    json = JObj [(''productId'', productId), (''quantity'', qty),
                                 (''available'', JBool (num_gt_zero n))] \<rparr>, sent))"
  using assms
  by (simp add: get_stock_def get_stock_try_def catch_all_def bindE_def get_truthy Let_def
        stock_body_def js_gt_zero_def internal_error_def split: sum.splits)

text \<open>
  C1, as stated, fails for an inventory value that cannot be compared with 0. The
  upstream returns a product object whose \<open>totalInventory\<close> is the object
  \<open>{"toString": 1}\<close>; the comparison \<open>qty > 0\<close> throws, and the answer is the 500.
\<close>

theorem get_stock_unconvertible_counterexample:
  "truthy (read_prop (req_query stock_request) ''productId'')
   \<and> truthy (product_with_inventory (JObj [(''toString'', JNum (Num 1))]))
   \<and> fst (get_stock Server_js example_runtime (load_config Server_js env_with_token)
        (stock_upstream (product_with_inventory (JObj [(''toString'', JNum (Num 1))])))
        stock_request) =
      \<lparr> status = 500, json = JObj [(''error'', JStr ''Internal error'')] \<rparr>"
  by (simp add: run_defs)

text \<open>
  C1, amended. A stock request that carries a productId, for which the upstream call
  returns data whose \<open>product\<close> is an object (any truthy value), has as quantity the
  upstream's \<open>totalInventory\<close>, with 0 in place of a missing or null one. Where that
  quantity can be converted to a number, which is the case for everything but an
  object with an own member \<open>toString\<close> and an array that holds one, the answer has
  status 200, that quantity, and as \<open>available\<close> the outcome of \<open>quantity > 0\<close>: for
  a finite number, true exactly when the number is positive; for a boolean, the
  boolean; for a string, whether the number it reads as is positive. Where the
  quantity cannot be converted, the answer is the 500.
\<close>

theorem get_stock_success:
  assumes "get (req_query req) ''productId'' = Inr productId" and "truthy productId"
      and "shopifyAdminGraphQL v cfg up [] stock_query (JObj [(''id'', productId)]) = (Inr data, sent)"
      and "get data ''product'' = Inr product" and "truthy product"
      and "ti = read_prop product ''totalInventory''"
      and "qty = js_coalesce ti (JNum (Num 0))"
  shows "(nullish ti \<longrightarrow> qty = JNum (Num 0))
         \<and> (\<not> nullish ti \<longrightarrow> qty = ti)
         \<and> (\<not> unconvertible qty \<longrightarrow>
              (\<exists>n. to_number rt qty = Inr n
                 \<and> get_stock v rt cfg up req =
                     (\<lparr> status = 200,
                         json = JObj [(''productId'', productId), (''quantity'', qty),
                                      (''available'', JBool (num_gt_zero n))] \<rparr>, sent)))
         \<and> (unconvertible qty \<longrightarrow>
              get_stock v rt cfg up req =
                (\<lparr> status = 500, json = JObj [(''error'', JStr ''Internal error'')] \<rparr>, sent))
         \<and> (\<forall>r. qty = JNum (Num r) \<longrightarrow>
              get_stock v rt cfg up req =
                (\<lparr> status = 200,
                    json = JObj [(''productId'', productId), (''quantity'', qty),
                                 (''available'', JBool (0 < r))] \<rparr>, sent))
         \<and> (\<forall>b. qty = JBool b \<longrightarrow>
              get_stock v rt cfg up req =
                (\<lparr> status = 200,
                    json = JObj [(''productId'', productId), (''quantity'', qty),
                                 (''available'', JBool b)] \<rparr>, sent))
         \<and> (\<forall>s. qty = JStr s \<longrightarrow>
              get_stock v rt cfg up req =
                (\<lparr> status = 200,
                    json = JObj [(''productId'', productId), (''quantity'', qty),
                                 (''available'', JBool (num_gt_zero (string_to_number rt s)))] \<rparr>,
                 sent))"
proof -
  have q: "qty = js_coalesce (read_prop product ''totalInventory'') (JNum (Num 0))"
    using assms(6,7) by simp
  note run = get_stock_after_lookup [OF assms(1-5) q, of rt]
  have coalesce: "(nullish ti \<longrightarrow> qty = JNum (Num 0)) \<and> (\<not> nullish ti \<longrightarrow> qty = ti)"
    using assms(7) by (simp add: js_coalesce_def)
  have converted: "\<not> unconvertible qty \<longrightarrow>
              (\<exists>n. to_number rt qty = Inr n
                 \<and> get_stock v rt cfg up req =
                     (\<lparr> status = 200,
                         json = JObj [(''productId'', productId), (''quantity'', qty),
                                      (''available'', JBool (num_gt_zero n))] \<rparr>, sent))"
  proof
    assume "\<not> unconvertible qty"
    then obtain n where "to_number rt qty = Inr n"
      using to_number_defined [of rt qty] by blast
    then show "\<exists>n. to_number rt qty = Inr n
                 \<and> get_stock v rt cfg up req =
                     (\<lparr> status = 200,
                         json = JObj [(''productId'', productId), (''quantity'', qty),
                                      (''available'', JBool (num_gt_zero n))] \<rparr>, sent)"
      using run by simp
  qed
  have thrown: "unconvertible qty \<longrightarrow>
              get_stock v rt cfg up req =
                (\<lparr> status = 500, json = JObj [(''error'', JStr ''Internal error'')] \<rparr>, sent)"
  proof
    assume "unconvertible qty"
    then have "to_number rt qty = Inl TypeError" by (simp add: to_number_throws)
    then show "get_stock v rt cfg up req =
                (\<lparr> status = 500, json = JObj [(''error'', JStr ''Internal error'')] \<rparr>, sent)"
      using run by simp
  qed
  have number: "\<forall>r. qty = JNum (Num r) \<longrightarrow>
              get_stock v rt cfg up req =
                (\<lparr> status = 200,
                    json = JObj [(''productId'', productId), (''quantity'', qty),
                                 (''available'', JBool (0 < r))] \<rparr>, sent)"
    using run by simp
  have boolean: "\<forall>b. qty = JBool b \<longrightarrow>
              get_stock v rt cfg up req =
                (\<lparr> status = 200,
                    json = JObj [(''productId'', productId), (''quantity'', qty),
                                 (''available'', JBool b)] \<rparr>, sent)"
    using run by simp
  have str: "\<forall>s. qty = JStr s \<longrightarrow>
              get_stock v rt cfg up req =
                (\<lparr> status = 200,
                    json = JObj [(''productId'', productId), (''quantity'', qty),
                                 (''available'', JBool (num_gt_zero (string_to_number rt s)))] \<rparr>,
                 sent)"
    using run by simp
  from coalesce converted thrown number boolean str show ?thesis by blast
qed

theorem get_stock_success_witness:
  "get (req_query stock_request) ''productId'' = Inr (JStr ''gid://shopify/Product/1'')
   \<and> truthy (JStr ''gid://shopify/Product/1'')
   \<and> truthy (product_with_inventory (JNum (Num 7)))
   \<and> get_stock Server_js example_runtime (load_config Server_js env_with_token)
        (stock_upstream (product_with_inventory (JNum (Num 7)))) stock_request =
      (\<lparr> status = 200,
          json = JObj [(''productId'', JStr ''gid://shopify/Product/1''),
                       (''quantity'', JNum (Num 7)), (''available'', JBool True)] \<rparr>,
       [\<lparr> url = endpoint (load_config Server_js env_with_token),
           access_token = JStr ''shpat_0123'', query = stock_query,
           variables = JObj [(''id'', JStr ''gid://shopify/Product/1'')] \<rparr>])"
proof -
  let ?cfg = "load_config Server_js env_with_token"
  let ?pid = "JStr ''gid://shopify/Product/1''"
  let ?product = "product_with_inventory (JNum (Num 7))"
  let ?data = "JObj [(''product'', ?product)]"
  let ?sent = "[\<lparr> url = endpoint ?cfg, access_token = JStr ''shpat_0123'', query = stock_query,
                   variables = JObj [(''id'', ?pid)] \<rparr>]"
  have h1: "get (req_query stock_request) ''productId'' = Inr ?pid"
    by (simp add: stock_request_def get_def nullish_def)
  have h2: "truthy ?pid" by simp
  have h3: "shopifyAdminGraphQL Server_js ?cfg (stock_upstream ?product) [] stock_query
              (JObj [(''id'', ?pid)]) = (Inr ?data, ?sent)"
    by (simp add: shopifyAdminGraphQL_def load_config_def env_with_token_def env_val_def
          stock_upstream_def read_response_def ok_def bindE_def get_def nullish_def Let_def)
  have h4: "get ?data ''product'' = Inr ?product" by (simp add: get_def nullish_def)
  have h5: "truthy ?product" by (simp add: product_with_inventory_def)
  have h6: "JNum (Num 7) = read_prop ?product ''totalInventory''"
    by (simp add: product_with_inventory_def)
  have h7: "JNum (Num 7) = js_coalesce (JNum (Num 7)) (JNum (Num 0))"
    by (simp add: js_coalesce_def nullish_def)
  show ?thesis
    using get_stock_success [OF h1 h2 h3 h4 h5 h6 h7, of example_runtime] h1 h5
    by simp
qed

section \<open>Order creation: local validation\<close>

text \<open>
  C4. An order request whose body has no \<open>productId\<close> or no \<open>quantity\<close> is answered
  with status 400 and the message \<open>Missing productId or quantity\<close>, and nothing is sent
  to the upstream.
\<close>

theorem create_order_missing_field:
  assumes "read_prop (js_or (req_body req) (JObj [])) ''productId'' = JUndef
         \<or> read_prop (js_or (req_body req) (JObj [])) ''quantity'' = JUndef"
  shows "create_order v cfg up req =
           (\<lparr> status = 400, json = JObj [(''error'', JStr ''Missing productId or quantity'')] \<rparr>, [])"
  using assms by (auto simp: create_order_def create_order_try_def catch_all_def Let_def)

theorem create_order_missing_field_witness:
  "read_prop (js_or (req_body (order_request [(''productId'', JStr ''gid://shopify/Product/1'')]))
               (JObj [])) ''quantity'' = JUndef
   \<and> create_order Part_000 (load_config Part_000 env_with_token)
        (order_upstream (product_with_edges one_edge) created_order)
        (order_request [(''productId'', JStr ''gid://shopify/Product/1'')]) =
      (\<lparr> status = 400, json = JObj [(''error'', JStr ''Missing productId or quantity'')] \<rparr>, [])"
proof -
  have h: "read_prop (js_or (req_body (order_request [(''productId'', JStr ''gid://shopify/Product/1'')]))
                       (JObj [])) ''quantity'' = JUndef"
    by (simp add: order_request_def js_or_def)
  show ?thesis
    using create_order_missing_field [OF disjI2, OF h] h by simp
qed

text \<open>
  C10. An order request whose \<open>quantity\<close> is 0, or any other falsy value, is answered
  like one that has no \<open>quantity\<close> at all: status 400 with the message
  \<open>Missing productId or quantity\<close>, nothing sent to the upstream.
\<close>

theorem create_order_falsy_quantity:
  assumes "body = js_or (req_body req) (JObj [])"
      and "\<not> truthy (read_prop body ''quantity'')"
  shows "create_order v cfg up req =
           (\<lparr> status = 400, json = JObj [(''error'', JStr ''Missing productId or quantity'')] \<rparr>, [])
         \<and> create_order v cfg up req =
             create_order v cfg up (order_request [(''productId'', read_prop body ''productId'')])"
  using assms
  by (simp add: create_order_def create_order_try_def catch_all_def Let_def order_request_def
        js_or_def)

theorem create_order_falsy_quantity_witness:
  "\<not> truthy (JNum (Num 0))
   \<and> create_order Server_js (load_config Server_js env_with_token)
        (order_upstream (product_with_edges one_edge) created_order)
        (order_request [(''productId'', JStr ''gid://shopify/Product/1''),
                        (''quantity'', JNum (Num 0))]) =
      (\<lparr> status = 400, json = JObj [(''error'', JStr ''Missing productId or quantity'')] \<rparr>, [])"
proof -
  let ?req = "order_request [(''productId'', JStr ''gid://shopify/Product/1''),
                             (''quantity'', JNum (Num 0))]"
  have b: "req_body ?req = js_or (req_body ?req) (JObj [])"
    by (simp add: order_request_def js_or_def)
  have q: "\<not> truthy (read_prop (req_body ?req) ''quantity'')"
    by (simp add: order_request_def)
  show ?thesis
    using create_order_falsy_quantity [OF b q] by simp
qed

section \<open>Order creation: the two upstream steps\<close>

text \<open>
  C2. An order request that passes the local validation, for which the variant query
  returns data whose \<open>product\<close> is missing (falsy) or has an empty list of variant
  edges, is answered with status 404 and the message \<open>Product or variant not found\<close>.
  The requests sent to the upstream are the variant query and nothing else: the
  mutation is not sent.
\<close>

theorem create_order_not_found:
  assumes "body = js_or (req_body req) (JObj [])"
      and "productId = read_prop body ''productId''" and "truthy productId"
      and "truthy (read_prop body ''quantity'')"
      and "fst (shopifyAdminGraphQL v cfg up [] variant_query (JObj [(''id'', productId)])) = Inr varData"
      and "get varData ''product'' = Inr product"
      and "\<not> truthy product \<or> read_prop (read_prop product ''variants'') ''edges'' = JArr []"
  shows "create_order v cfg up req =
           (\<lparr> status = 404, json = JObj [(''error'', JStr ''Product or variant not found'')] \<rparr>,
            [\<lparr> url = endpoint cfg, access_token = ADMIN_TOKEN cfg, query = variant_query,
                variables = JObj [(''id'', productId)] \<rparr>])"
proof -
  have tok: "truthy (ADMIN_TOKEN cfg)" using assms(5) by (rule shopifyAdminGraphQL_Inr_token)
  let ?r = "\<lparr> url = endpoint cfg, access_token = ADMIN_TOKEN cfg, query = variant_query,
               variables = JObj [(''id'', productId)] \<rparr>"
  have call: "shopifyAdminGraphQL v cfg up [] variant_query (JObj [(''id'', productId)]) = (Inr varData, [?r])"
    using assms(5) tok by (simp add: shopifyAdminGraphQL_token)
  have nv: "no_variant product = Inr True"
    using assms(7) by (auto simp: no_variant_empty) (simp add: no_variant_def)
  show ?thesis
    using assms(1-4) call assms(6) nv
    by (simp add: create_order_def create_order_try_def catch_all_def Let_def bindE_def)
qed

theorem create_order_not_found_witness:
  "truthy (JStr ''gid://shopify/Product/1'') \<and> truthy (JNum (Num 2))
   \<and> read_prop (read_prop (product_with_edges []) ''variants'') ''edges'' = JArr []
   \<and> create_order Part_000 (load_config Part_000 env_with_token)
        (order_upstream (product_with_edges []) created_order)
        (order_request [(''productId'', JStr ''gid://shopify/Product/1''),
                        (''quantity'', JNum (Num 2))]) =
      (\<lparr> status = 404, json = JObj [(''error'', JStr ''Product or variant not found'')] \<rparr>,
       [\<lparr> url = endpoint (load_config Part_000 env_with_token),
           access_token = JStr ''shpat_0123'', query = variant_query,
           variables = JObj [(''id'', JStr ''gid://shopify/Product/1'')] \<rparr>])"
proof -
  let ?cfg = "load_config Part_000 env_with_token"
  let ?up = "order_upstream (product_with_edges []) created_order"
  let ?pid = "JStr ''gid://shopify/Product/1''"
  let ?req = "order_request [(''productId'', ?pid), (''quantity'', JNum (Num 2))]"
  have h1: "req_body ?req = js_or (req_body ?req) (JObj [])" by (simp add: run_defs)
  have h2: "?pid = read_prop (req_body ?req) ''productId''" by (simp add: run_defs)
  have h3: "truthy ?pid" by simp
  have h4: "truthy (read_prop (req_body ?req) ''quantity'')" by (simp add: run_defs)
  have h5: "fst (shopifyAdminGraphQL Part_000 ?cfg ?up [] variant_query (JObj [(''id'', ?pid)])) =
              Inr (JObj [(''product'', product_with_edges [])])"
    by (simp add: run_defs)
  have h6: "get (JObj [(''product'', product_with_edges [])]) ''product'' =
              Inr (product_with_edges [])" by (simp add: run_defs)
  have h7: "read_prop (read_prop (product_with_edges []) ''variants'') ''edges'' = JArr []"
    by (simp add: run_defs)
  have tok: "ADMIN_TOKEN ?cfg = JStr ''shpat_0123''" by (simp add: run_defs)
  show ?thesis
    using create_order_not_found [OF h1 h2 h3 h4 h5 h6 disjI2, OF h7] h7 tok
    by simp
qed

text \<open>
  C3. An order request that passes the local validation and the variant resolution,
  for which the mutation returns a result whose \<open>userErrors\<close> is a non-empty list, is
  answered with status 400 and a body whose \<open>details\<close> is that list, unchanged. The
  body has no \<open>success\<close> member.
\<close>

theorem create_order_user_errors:
  assumes "body = js_or (req_body req) (JObj [])"
      and "productId = read_prop body ''productId''" and "truthy productId"
      and "quantity = read_prop body ''quantity''" and "truthy quantity"
      and "shopifyAdminGraphQL v cfg up [] variant_query (JObj [(''id'', productId)]) = (Inr varData, sent)"
      and "get varData ''product'' = Inr product"
      and "no_variant product = Inr False"
      and "first_variant_id product = Inr variantId"
      and "shopifyAdminGraphQL v cfg up sent (order_mutation v)
             (JObj [(order_variable v,
                     orderInput (read_prop body ''email'') quantity variantId (read_prop body ''note''))])
           = (Inr orderData, sent')"
      and "get orderData ''orderCreate'' = Inr result"
      and "read_prop result ''userErrors'' = JArr es" and "es \<noteq> []"
  shows "create_order v cfg up req =
           (\<lparr> status = 400,
               json = JObj [(''error'', JStr ''Shopify order error''), (''details'', JArr es)] \<rparr>,
            sent')
         \<and> read_prop (json (fst (create_order v cfg up req))) ''success'' = JUndef"
proof -
  have r: "\<not> nullish result" using assms(12) by (rule read_prop_array_receiver)
  have resp: "order_response orderData =
          Inr \<lparr> status = 400,
                json = JObj [(''error'', JStr ''Shopify order error''), (''details'', JArr es)] \<rparr>"
    using assms(11-13) r by (simp add: order_response_def bindE_def get_def)
  have "create_order v cfg up req =
           (\<lparr> status = 400,
               json = JObj [(''error'', JStr ''Shopify order error''), (''details'', JArr es)] \<rparr>,
            sent')"
    using assms(1-10) resp
    by (simp add: create_order_def create_order_try_def catch_all_def Let_def bindE_def)
  then show ?thesis by simp
qed

theorem create_order_user_errors_witness:
  "truthy (JStr ''gid://shopify/Product/1'') \<and> truthy (JNum (Num 2))
   \<and> read_prop rejected_order ''userErrors'' \<noteq> JArr []
   \<and> fst (create_order Server_js (load_config Server_js env_with_token)
        (order_upstream (product_with_edges one_edge) rejected_order)
        (order_request [(''productId'', JStr ''gid://shopify/Product/1''),
                        (''quantity'', JNum (Num 2))])) =
      \<lparr> status = 400,
         json = JObj [(''error'', JStr ''Shopify order error''),
                      (''details'', read_prop rejected_order ''userErrors'')] \<rparr>"
proof -
  let ?cfg = "load_config Server_js env_with_token"
  let ?up = "order_upstream (product_with_edges one_edge) rejected_order"
  let ?pid = "JStr ''gid://shopify/Product/1''"
  let ?req = "order_request [(''productId'', ?pid), (''quantity'', JNum (Num 2))]"
  let ?vid = "JStr ''gid://shopify/ProductVariant/9''"
  let ?r1 = "\<lparr> url = endpoint ?cfg, access_token = ADMIN_TOKEN ?cfg, query = variant_query,
                variables = JObj [(''id'', ?pid)] \<rparr>"
  let ?r2 = "\<lparr> url = endpoint ?cfg, access_token = ADMIN_TOKEN ?cfg, query = order_mutation Server_js,
                variables = JObj [(order_variable Server_js,
                   orderInput (read_prop (req_body ?req) ''email'') (JNum (Num 2)) ?vid
                     (read_prop (req_body ?req) ''note''))] \<rparr>"
  let ?es = "[JObj [(''field'', JArr [JStr ''lineItems'']), (''message'', JStr ''Quantity is invalid'')]]"
  have h1: "req_body ?req = js_or (req_body ?req) (JObj [])" by (simp add: run_defs)
  have h2: "?pid = read_prop (req_body ?req) ''productId''" by (simp add: run_defs)
  have h3: "truthy ?pid" by simp
  have h4: "JNum (Num 2) = read_prop (req_body ?req) ''quantity''" by (simp add: run_defs)
  have h5: "truthy (JNum (Num 2))" by simp
  have h6: "shopifyAdminGraphQL Server_js ?cfg ?up [] variant_query (JObj [(''id'', ?pid)]) =
              (Inr (JObj [(''product'', product_with_edges one_edge)]), [?r1])"
    by (simp add: run_defs)
  have h7: "get (JObj [(''product'', product_with_edges one_edge)]) ''product'' =
              Inr (product_with_edges one_edge)" by (simp add: run_defs)
  have h8: "no_variant (product_with_edges one_edge) = Inr False" by (simp add: run_defs)
  have h9: "first_variant_id (product_with_edges one_edge) = Inr ?vid" by (simp add: run_defs)
  have h10: "shopifyAdminGraphQL Server_js ?cfg ?up [?r1] (order_mutation Server_js)
               (JObj [(order_variable Server_js,
                   orderInput (read_prop (req_body ?req) ''email'') (JNum (Num 2)) ?vid
                     (read_prop (req_body ?req) ''note''))]) =
             (Inr (JObj [(''orderCreate'', rejected_order)]), [?r1, ?r2])"
    by (simp add: run_defs)
  have h11: "get (JObj [(''orderCreate'', rejected_order)]) ''orderCreate'' = Inr rejected_order"
    by (simp add: run_defs)
  have h12: "read_prop rejected_order ''userErrors'' = JArr ?es" by (simp add: run_defs)
  have h13: "?es \<noteq> []" by simp
  show ?thesis
    using create_order_user_errors [OF h1 h2 h3 h4 h5 h6 h7 h8 h9 h10 h11 h12 h13] h12
    by simp
qed

section \<open>Stock lookup: the range of the quantity\<close>

lemma nonneg_integer_coalesce:
  "nonneg_integer (js_coalesce ti (JNum (Num 0))) \<longleftrightarrow> nullish ti \<or> nonneg_integer ti"
  by (auto simp: js_coalesce_def nonneg_integer_def nullish_def)

text \<open>
  C6, as stated, fails: the handler does not clamp the inventory. With an upstream
  \<open>totalInventory\<close> of -5 the answer is a 200 whose \<open>quantity\<close> is -5.
\<close>

theorem get_stock_negative_inventory_counterexample:
  "status (fst (get_stock Server_js example_runtime (load_config Server_js env_with_token)
             (stock_upstream (product_with_inventory (JNum (Num (- 5))))) stock_request)) = 200
   \<and> read_prop (json (fst (get_stock Server_js example_runtime (load_config Server_js env_with_token)
             (stock_upstream (product_with_inventory (JNum (Num (- 5))))) stock_request))) ''quantity''
       = JNum (Num (- 5))
   \<and> \<not> nonneg_integer (JNum (Num (- 5)))"
  by (simp add: run_defs nonneg_integer_def)

text \<open>
  C6, amended. Every 200 answer of the stock handler has the three members \<open>productId\<close>,
  \<open>quantity\<close>, \<open>available\<close>, in which \<open>quantity\<close> is the upstream's \<open>totalInventory\<close>
  unchanged, or 0 when that is missing or null, and \<open>available\<close> is the outcome of
  \<open>quantity > 0\<close>. The quantity is a whole number that is not negative exactly when
  the upstream's value is missing, null, or itself such a number.
\<close>

theorem get_stock_quantity_passthrough:
  assumes "status (fst (get_stock v rt cfg up req)) = 200"
      and "productId = read_prop (req_query req) ''productId''"
  shows "\<exists>data ti available.
           fst (shopifyAdminGraphQL v cfg up [] stock_query (JObj [(''id'', productId)])) = Inr data
         \<and> ti = read_prop (read_prop data ''product'') ''totalInventory''
         \<and> js_gt_zero rt (js_coalesce ti (JNum (Num 0))) = Inr available
         \<and> json (fst (get_stock v rt cfg up req)) =
             JObj [(''productId'', productId), (''quantity'', js_coalesce ti (JNum (Num 0))),
                   (''available'', JBool available)]
         \<and> (nullish ti \<longrightarrow> js_coalesce ti (JNum (Num 0)) = JNum (Num 0))
         \<and> (\<not> nullish ti \<longrightarrow> js_coalesce ti (JNum (Num 0)) = ti)
         \<and> (nonneg_integer (js_coalesce ti (JNum (Num 0))) \<longleftrightarrow> nullish ti \<or> nonneg_integer ti)"
proof -
  let ?call = "shopifyAdminGraphQL v cfg up [] stock_query (JObj [(''id'', productId)])"
  obtain r sent where call: "?call = (r, sent)" by (cases ?call)
  have q: "get (req_query req) ''productId'' = Inr productId"
    using assms by (auto simp: get_stock_def get_stock_try_def catch_all_def internal_error_def
        get_def split: if_splits)
  have t: "truthy productId"
    using assms q by (auto simp: get_stock_def get_stock_try_def catch_all_def split: if_splits)
  obtain data where d: "r = Inr data"
    using assms(1) q t call
    by (cases r) (auto simp: get_stock_def get_stock_try_def catch_all_def internal_error_def)
  have p: "get data ''product'' = Inr (read_prop data ''product'')"
    using assms(1) q t call d
    by (auto simp: get_stock_def get_stock_try_def catch_all_def internal_error_def bindE_def
          get_def split: if_splits)
  have tp: "truthy (read_prop data ''product'')"
    using assms(1) q t call d p
    by (auto simp: get_stock_def get_stock_try_def catch_all_def bindE_def split: if_splits)
  let ?qty = "js_coalesce (read_prop (read_prop data ''product'') ''totalInventory'') (JNum (Num 0))"
  obtain available where a: "js_gt_zero rt ?qty = Inr available"
    using assms(1) q t call d p tp
    by (cases "js_gt_zero rt ?qty")
       (auto simp: get_stock_def get_stock_try_def catch_all_def bindE_def get_truthy Let_def
             internal_error_def)
  have "json (fst (get_stock v rt cfg up req)) =
          JObj [(''productId'', productId), (''quantity'', ?qty), (''available'', JBool available)]"
    using q t call d p tp a
    by (simp add: get_stock_def get_stock_try_def catch_all_def bindE_def get_truthy Let_def
          stock_body_def)
  moreover have "fst ?call = Inr data" using call d by simp
  moreover have "nullish ti \<longrightarrow> js_coalesce ti (JNum (Num 0)) = JNum (Num 0)"
            "\<not> nullish ti \<longrightarrow> js_coalesce ti (JNum (Num 0)) = ti" for ti
    by (simp_all add: js_coalesce_def)
  ultimately show ?thesis
    using nonneg_integer_coalesce a by blast
qed

theorem get_stock_quantity_passthrough_witness:
  "status (fst (get_stock Part_000 example_runtime (load_config Part_000 env_with_token)
             (stock_upstream (product_with_inventory JNull)) stock_request)) = 200
   \<and> json (fst (get_stock Part_000 example_runtime (load_config Part_000 env_with_token)
             (stock_upstream (product_with_inventory JNull)) stock_request)) =
       JObj [(''productId'', JStr ''gid://shopify/Product/1''), (''quantity'', JNum (Num 0)),
             (''available'', JBool False)]"
proof -
  let ?cfg = "load_config Part_000 env_with_token"
  let ?up = "stock_upstream (product_with_inventory JNull)"
  have h: "status (fst (get_stock Part_000 example_runtime ?cfg ?up stock_request)) = 200"
    by (simp add: run_defs)
  have call: "fst (shopifyAdminGraphQL Part_000 ?cfg ?up [] stock_query
                (JObj [(''id'', read_prop (req_query stock_request) ''productId'')])) =
              Inr (JObj [(''product'', product_with_inventory JNull)])"
    by (simp add: run_defs)
  have ti: "read_prop (read_prop (JObj [(''product'', product_with_inventory JNull)]) ''product'')
              ''totalInventory'' = JNull"
    by (simp add: run_defs)
  have pid: "read_prop (req_query stock_request) ''productId'' = JStr ''gid://shopify/Product/1''"
    by (simp add: run_defs)
  from get_stock_quantity_passthrough [OF h refl]
  obtain data ti' available where
        "fst (shopifyAdminGraphQL Part_000 ?cfg ?up [] stock_query
                (JObj [(''id'', read_prop (req_query stock_request) ''productId'')])) = Inr data"
    and "ti' = read_prop (read_prop data ''product'') ''totalInventory''"
    and "js_gt_zero example_runtime (js_coalesce ti' (JNum (Num 0))) = Inr available"
    and "json (fst (get_stock Part_000 example_runtime ?cfg ?up stock_request)) =
           JObj [(''productId'', read_prop (req_query stock_request) ''productId''),
                 (''quantity'', js_coalesce ti' (JNum (Num 0))),
                 (''available'', JBool available)]"
    and "nullish ti' \<longrightarrow> js_coalesce ti' (JNum (Num 0)) = JNum (Num 0)"
    by blast
  with call ti pid h show ?thesis
    by (auto simp: nullish_def js_gt_zero_def bindE_def)
qed

section \<open>Order creation: the payload of the mutation\<close>

text \<open>
  C7, as stated, fails for an email that is present but empty: the request's email is
  the empty string, and the payload carries the default address in its place.
\<close>

theorem create_order_empty_email_counterexample:
  "read_prop (req_body (order_request [(''productId'', JStr ''gid://shopify/Product/1''),
                                         (''quantity'', JNum (Num 2)), (''email'', JStr [])])) ''email''
     = JStr []
   \<and> read_prop (read_prop (variables (last (snd
        (create_order Server_js (load_config Server_js env_with_token)
           (order_upstream (product_with_edges one_edge) created_order)
           (order_request [(''productId'', JStr ''gid://shopify/Product/1''),
                           (''quantity'', JNum (Num 2)), (''email'', JStr [])]))))) ''order'') ''email''
     = JStr ''no-email@example.com''"
  by (simp add: run_defs)

text \<open>
  C7, amended. For an order request that passes the local validation and the variant
  resolution, the last request sent to the upstream is the mutation, and its payload
  carries: as \<open>email\<close> the request's email when that is truthy, and
  \<open>no-email@example.com\<close> when it is absent or otherwise falsy (empty string, null,
  false, 0); as \<open>note\<close> the request's note when that is truthy, and
  \<open>Order from WeChat Mini Program\<close> when it is absent or otherwise falsy; and the
  financial status \<open>PAID\<close>, whatever the request holds.
\<close>

theorem create_order_payload:
  assumes "body = js_or (req_body req) (JObj [])"
      and "productId = read_prop body ''productId''" and "truthy productId"
      and "quantity = read_prop body ''quantity''" and "truthy quantity"
      and "email = read_prop body ''email''" and "note = read_prop body ''note''"
      and "shopifyAdminGraphQL v cfg up [] variant_query (JObj [(''id'', productId)]) = (Inr varData, sent)"
      and "get varData ''product'' = Inr product"
      and "no_variant product = Inr False"
      and "first_variant_id product = Inr variantId"
      and "payload = orderInput email quantity variantId note"
  shows "snd (create_order v cfg up req) =
           sent @ [\<lparr> url = endpoint cfg, access_token = ADMIN_TOKEN cfg, query = order_mutation v,
                      variables = JObj [(order_variable v, payload)] \<rparr>]
         \<and> read_prop payload ''email'' = (if truthy email then email else JStr ''no-email@example.com'')
         \<and> read_prop payload ''note'' =
             (if truthy note then note else JStr ''Order from WeChat Mini Program'')
         \<and> read_prop payload ''financialStatus'' = JStr ''PAID''"
proof -
  have tok: "truthy (ADMIN_TOKEN cfg)"
    using assms(8)
      shopifyAdminGraphQL_Inr_token [of v cfg up "[]" variant_query "JObj [(''id'', productId)]" varData]
    by simp
  have second:
    "snd (shopifyAdminGraphQL v cfg up sent (order_mutation v) (JObj [(order_variable v, payload)])) =
       sent @ [\<lparr> url = endpoint cfg, access_token = ADMIN_TOKEN cfg, query = order_mutation v,
                  variables = JObj [(order_variable v, payload)] \<rparr>]"
    using tok by (simp add: shopifyAdminGraphQL_token)
  have "snd (create_order v cfg up req) =
          snd (shopifyAdminGraphQL v cfg up sent (order_mutation v) (JObj [(order_variable v, payload)]))"
    using assms
    by (simp add: create_order_def create_order_try_def catch_all_def Let_def bindE_def
          split: prod.splits sum.splits)
  with second have sent:
    "snd (create_order v cfg up req) =
       sent @ [\<lparr> url = endpoint cfg, access_token = ADMIN_TOKEN cfg, query = order_mutation v,
                  variables = JObj [(order_variable v, payload)] \<rparr>]"
    by simp
  have fields:
    "read_prop payload ''email'' = (if truthy email then email else JStr ''no-email@example.com'')
     \<and> read_prop payload ''note'' =
         (if truthy note then note else JStr ''Order from WeChat Mini Program'')
     \<and> read_prop payload ''financialStatus'' = JStr ''PAID''"
    using assms(12) by (simp add: orderInput_def js_or_def)
  from sent fields show ?thesis by simp
qed

theorem create_order_payload_witness:
  "truthy (JStr ''gid://shopify/Product/1'') \<and> truthy (JNum (Num 2))
   \<and> map variables (snd (create_order Part_000 (load_config Part_000 env_with_token)
        (order_upstream (product_with_edges one_edge) created_order)
        (order_request [(''productId'', JStr ''gid://shopify/Product/1''),
                        (''quantity'', JNum (Num 2))]))) =
      [JObj [(''id'', JStr ''gid://shopify/Product/1'')],
       JObj [(''input'',
          JObj [(''email'', JStr ''no-email@example.com''),
                (''lineItems'', JArr [JObj [(''quantity'', JNum (Num 2)),
                                            (''variantId'', JStr ''gid://shopify/ProductVariant/9'')]]),
                (''tags'', JArr [JStr ''WeChat Mini Program'']),
                (''note'', JStr ''Order from WeChat Mini Program''),
                (''financialStatus'', JStr ''PAID'')])]]"
proof -
  let ?cfg = "load_config Part_000 env_with_token"
  let ?up = "order_upstream (product_with_edges one_edge) created_order"
  let ?pid = "JStr ''gid://shopify/Product/1''"
  let ?req = "order_request [(''productId'', ?pid), (''quantity'', JNum (Num 2))]"
  let ?vid = "JStr ''gid://shopify/ProductVariant/9''"
  let ?r1 = "\<lparr> url = endpoint ?cfg, access_token = ADMIN_TOKEN ?cfg, query = variant_query,
                variables = JObj [(''id'', ?pid)] \<rparr>"
  have h1: "req_body ?req = js_or (req_body ?req) (JObj [])" by (simp add: run_defs)
  have h2: "?pid = read_prop (req_body ?req) ''productId''" by (simp add: run_defs)
  have h3: "truthy ?pid" by simp
  have h4: "JNum (Num 2) = read_prop (req_body ?req) ''quantity''" by (simp add: run_defs)
  have h5: "truthy (JNum (Num 2))" by simp
  have h6: "JUndef = read_prop (req_body ?req) ''email''" by (simp add: run_defs)
  have h7: "JUndef = read_prop (req_body ?req) ''note''" by (simp add: run_defs)
  have h8: "shopifyAdminGraphQL Part_000 ?cfg ?up [] variant_query (JObj [(''id'', ?pid)]) =
              (Inr (JObj [(''product'', product_with_edges one_edge)]), [?r1])"
    by (simp add: run_defs)
  have h9: "get (JObj [(''product'', product_with_edges one_edge)]) ''product'' =
              Inr (product_with_edges one_edge)" by (simp add: run_defs)
  have h10: "no_variant (product_with_edges one_edge) = Inr False" by (simp add: run_defs)
  have h11: "first_variant_id (product_with_edges one_edge) = Inr ?vid" by (simp add: run_defs)
  show ?thesis
    using create_order_payload [OF h1 h2 h3 h4 h5 h6 h7 h8 h9 h10 h11 refl]
    by (simp add: orderInput_def js_or_def order_variable_def)
qed

section \<open>Order creation: what the local validation lets through\<close>

lemma create_order_sends_mutation:
  assumes "body = js_or (req_body req) (JObj [])"
      and "productId = read_prop body ''productId''" and "truthy productId"
      and "quantity = read_prop body ''quantity''" and "truthy quantity"
      and "shopifyAdminGraphQL v cfg up [] variant_query (JObj [(''id'', productId)]) = (Inr varData, sent)"
      and "get varData ''product'' = Inr product"
      and "no_variant product = Inr False"
      and "first_variant_id product = Inr variantId"
      and "payload = orderInput (read_prop body ''email'') quantity variantId (read_prop body ''note'')"
  shows "snd (create_order v cfg up req) =
           sent @ [\<lparr> url = endpoint cfg, access_token = ADMIN_TOKEN cfg, query = order_mutation v,
                      variables = JObj [(order_variable v, payload)] \<rparr>]"
proof -
  have tok: "truthy (ADMIN_TOKEN cfg)"
    using assms(6)
      shopifyAdminGraphQL_Inr_token [of v cfg up "[]" variant_query "JObj [(''id'', productId)]" varData]
    by simp
  have "snd (create_order v cfg up req) =
          snd (shopifyAdminGraphQL v cfg up sent (order_mutation v) (JObj [(order_variable v, payload)]))"
    using assms
    by (simp add: create_order_def create_order_try_def catch_all_def Let_def bindE_def
          split: prod.splits sum.splits)
  then show ?thesis using tok by (simp add: shopifyAdminGraphQL_token)
qed

text \<open>
  C5, as stated, fails: the local check is a truthiness test. A quantity of -3 is
  present and is not a positive count, yet the request is not answered with 400: both
  upstream calls are made, the mutation carries -3 as the quantity of its line item,
  and the answer is the upstream's.
\<close>

theorem create_order_negative_quantity_counterexample:
  "read_prop (req_body (order_request [(''productId'', JStr ''gid://shopify/Product/1''),
                                         (''quantity'', JNum (Num (- 3)))])) ''quantity''
     = JNum (Num (- 3))
   \<and> \<not> num_gt_zero (Num (- 3))
   \<and> status (fst (create_order Server_js (load_config Server_js env_with_token)
         (order_upstream (product_with_edges one_edge) created_order)
         (order_request [(''productId'', JStr ''gid://shopify/Product/1''),
                         (''quantity'', JNum (Num (- 3)))]))) = 200
   \<and> length (snd (create_order Server_js (load_config Server_js env_with_token)
         (order_upstream (product_with_edges one_edge) created_order)
         (order_request [(''productId'', JStr ''gid://shopify/Product/1''),
                         (''quantity'', JNum (Num (- 3)))]))) = 2
   \<and> read_prop (elem0 (read_prop (read_prop (variables (last (snd
         (create_order Server_js (load_config Server_js env_with_token)
           (order_upstream (product_with_edges one_edge) created_order)
           (order_request [(''productId'', JStr ''gid://shopify/Product/1''),
                           (''quantity'', JNum (Num (- 3)))]))))) ''order'') ''lineItems''))
       ''quantity'' = JNum (Num (- 3))"
  by (simp add: run_defs)

text \<open>
  C5, amended. For an order request that carries a productId, the request is treated
  as a client input error (status 400, the upstream never contacted) exactly when the
  quantity is falsy: absent, null, false, 0, NaN or the empty string. A quantity that
  is present and truthy passes the local check whatever it is (negative, fractional,
  not a number). With a token configured the variant query is then sent; and where
  that query resolves a variant, the mutation is sent next, with that quantity,
  unchanged, as the quantity of its one line item.
\<close>

theorem create_order_quantity_check:
  assumes "body = js_or (req_body req) (JObj [])"
      and "productId = read_prop body ''productId''" and "truthy productId"
      and "quantity = read_prop body ''quantity''"
      and "payload = orderInput (read_prop body ''email'') quantity variantId (read_prop body ''note'')"
  shows "((status (fst (create_order v cfg up req)) = 400 \<and> snd (create_order v cfg up req) = [])
            \<longleftrightarrow> \<not> truthy quantity)
         \<and> (truthy quantity \<and> truthy (ADMIN_TOKEN cfg) \<longrightarrow>
              hd (snd (create_order v cfg up req)) =
                \<lparr> url = endpoint cfg, access_token = ADMIN_TOKEN cfg, query = variant_query,
                   variables = JObj [(''id'', productId)] \<rparr>)
         \<and> (truthy quantity
              \<and> shopifyAdminGraphQL v cfg up [] variant_query (JObj [(''id'', productId)])
                  = (Inr varData, sent)
              \<and> get varData ''product'' = Inr product
              \<and> no_variant product = Inr False
              \<and> first_variant_id product = Inr variantId \<longrightarrow>
              snd (create_order v cfg up req) =
                sent @ [\<lparr> url = endpoint cfg, access_token = ADMIN_TOKEN cfg,
                           query = order_mutation v,
                           variables = JObj [(order_variable v, payload)] \<rparr>]
              \<and> read_prop payload ''lineItems'' =
                  JArr [JObj [(''quantity'', quantity), (''variantId'', variantId)]])"
proof -
  have local: "(status (fst (create_order v cfg up req)) = 400 \<and> snd (create_order v cfg up req) = [])
           \<longleftrightarrow> \<not> truthy quantity"
  proof (cases "truthy (ADMIN_TOKEN cfg)")
    case False
    then show ?thesis using assms(1-4)
      by (simp add: create_order_def create_order_try_def catch_all_def Let_def
            shopifyAdminGraphQL_no_token internal_error_def)
  next
    case True
    then show ?thesis using assms(1-4)
      by (simp add: create_order_def create_order_try_def catch_all_def Let_def
            shopifyAdminGraphQL_token split: sum.splits option.splits)
  qed
  have queried: "truthy quantity \<and> truthy (ADMIN_TOKEN cfg) \<longrightarrow>
           hd (snd (create_order v cfg up req)) =
             \<lparr> url = endpoint cfg, access_token = ADMIN_TOKEN cfg, query = variant_query,
                variables = JObj [(''id'', productId)] \<rparr>"
    using assms(1-4)
    by (simp add: create_order_def create_order_try_def catch_all_def Let_def
            shopifyAdminGraphQL_token split: sum.splits option.splits)
  have forwarded: "truthy quantity
              \<and> shopifyAdminGraphQL v cfg up [] variant_query (JObj [(''id'', productId)])
                  = (Inr varData, sent)
              \<and> get varData ''product'' = Inr product
              \<and> no_variant product = Inr False
              \<and> first_variant_id product = Inr variantId \<longrightarrow>
              snd (create_order v cfg up req) =
                sent @ [\<lparr> url = endpoint cfg, access_token = ADMIN_TOKEN cfg,
                           query = order_mutation v,
                           variables = JObj [(order_variable v, payload)] \<rparr>]
              \<and> read_prop payload ''lineItems'' =
                  JArr [JObj [(''quantity'', quantity), (''variantId'', variantId)]]"
  proof (intro impI, elim conjE)
    assume h: "truthy quantity"
        "shopifyAdminGraphQL v cfg up [] variant_query (JObj [(''id'', productId)]) = (Inr varData, sent)"
        "get varData ''product'' = Inr product"
        "no_variant product = Inr False"
        "first_variant_id product = Inr variantId"
    have "snd (create_order v cfg up req) =
                sent @ [\<lparr> url = endpoint cfg, access_token = ADMIN_TOKEN cfg,
                           query = order_mutation v,
                           variables = JObj [(order_variable v, payload)] \<rparr>]"
      by (rule create_order_sends_mutation [OF assms(1-4) h assms(5)])
    moreover have "read_prop payload ''lineItems'' =
                  JArr [JObj [(''quantity'', quantity), (''variantId'', variantId)]]"
      using assms(5) by (simp add: orderInput_def)
    ultimately show "snd (create_order v cfg up req) =
                sent @ [\<lparr> url = endpoint cfg, access_token = ADMIN_TOKEN cfg,
                           query = order_mutation v,
                           variables = JObj [(order_variable v, payload)] \<rparr>]
              \<and> read_prop payload ''lineItems'' =
                  JArr [JObj [(''quantity'', quantity), (''variantId'', variantId)]]"
      by (rule conjI)
  qed
  from local queried forwarded show ?thesis by blast
qed

theorem create_order_quantity_check_witness:
  "truthy (JStr ''gid://shopify/Product/1'') \<and> truthy (JNum (Num (- 3)))
   \<and> \<not> (status (fst (create_order Part_000 (load_config Part_000 env_with_token)
              (order_upstream (product_with_edges one_edge) created_order)
              (order_request [(''productId'', JStr ''gid://shopify/Product/1''),
                              (''quantity'', JNum (Num (- 3)))]))) = 400
         \<and> snd (create_order Part_000 (load_config Part_000 env_with_token)
              (order_upstream (product_with_edges one_edge) created_order)
              (order_request [(''productId'', JStr ''gid://shopify/Product/1''),
                              (''quantity'', JNum (Num (- 3)))])) = [])
   \<and> map variables (snd (create_order Part_000 (load_config Part_000 env_with_token)
              (order_upstream (product_with_edges one_edge) created_order)
              (order_request [(''productId'', JStr ''gid://shopify/Product/1''),
                              (''quantity'', JNum (Num (- 3)))]))) =
       [JObj [(''id'', JStr ''gid://shopify/Product/1'')],
        JObj [(''input'',
           JObj [(''email'', JStr ''no-email@example.com''),
                 (''lineItems'', JArr [JObj [(''quantity'', JNum (Num (- 3))),
                                             (''variantId'', JStr ''gid://shopify/ProductVariant/9'')]]),
                 (''tags'', JArr [JStr ''WeChat Mini Program'']),
                 (''note'', JStr ''Order from WeChat Mini Program''),
                 (''financialStatus'', JStr ''PAID'')])]]"
proof -
  let ?cfg = "load_config Part_000 env_with_token"
  let ?up = "order_upstream (product_with_edges one_edge) created_order"
  let ?pid = "JStr ''gid://shopify/Product/1''"
  let ?req = "order_request [(''productId'', ?pid), (''quantity'', JNum (Num (- 3)))]"
  let ?vid = "JStr ''gid://shopify/ProductVariant/9''"
  let ?r1 = "\<lparr> url = endpoint ?cfg, access_token = ADMIN_TOKEN ?cfg, query = variant_query,
                variables = JObj [(''id'', ?pid)] \<rparr>"
  have h1: "req_body ?req = js_or (req_body ?req) (JObj [])" by (simp add: run_defs)
  have h2: "?pid = read_prop (req_body ?req) ''productId''" by (simp add: run_defs)
  have h3: "truthy ?pid" by simp
  have h4: "JNum (Num (- 3)) = read_prop (req_body ?req) ''quantity''" by (simp add: run_defs)
  have q: "truthy (JNum (Num (- 3)))" by simp
  have c: "shopifyAdminGraphQL Part_000 ?cfg ?up [] variant_query (JObj [(''id'', ?pid)]) =
              (Inr (JObj [(''product'', product_with_edges one_edge)]), [?r1])"
    by (simp add: run_defs)
  have p: "get (JObj [(''product'', product_with_edges one_edge)]) ''product'' =
              Inr (product_with_edges one_edge)" by (simp add: run_defs)
  have n: "no_variant (product_with_edges one_edge) = Inr False" by (simp add: run_defs)
  have f: "first_variant_id (product_with_edges one_edge) = Inr ?vid" by (simp add: run_defs)
  have tok: "truthy (ADMIN_TOKEN ?cfg)" by (simp add: run_defs)
  show ?thesis
    using create_order_quantity_check [OF h1 h2 h3 h4 refl,
            where v = Part_000 and cfg = ?cfg and up = ?up and variantId = ?vid
              and varData = "JObj [(''product'', product_with_edges one_edge)]"
              and sent = "[?r1]" and product = "product_with_edges one_edge"]
          q c p n f tok
    by (simp add: run_defs)
qed

section \<open>A missing token\<close>

text \<open>
  C8. With no token in the environment (unset, or set to the empty string) the server
  starts all the same: the configuration is read and the port is bound as configured.
  From then on every upstream call throws before a request is sent, and every inbound
  request that passes its local validation, and so reaches the upstream call, is
  answered with status 500 and the body \<open>{error: "Internal error"}\<close>, with nothing
  sent to the upstream.
\<close>

theorem missing_token_fails_per_request:
  assumes "\<not> truthy (env_val e ''SHOPIFY_ADMIN_TOKEN'')"
      and "srv = start_server v e"
      and "cfg = server_config srv"
  shows "PORT srv = js_or (env_val e ''PORT'') (JNum (Num 3000))
         \<and> cfg = load_config v e
         \<and> shopifyAdminGraphQL v cfg up sent q vars =
             (Inl (MissingToken (missing_token_message v)), sent)
         \<and> (truthy (read_prop (req_query req) ''productId'') \<longrightarrow>
              get_stock v rt cfg up req =
                (\<lparr> status = 500, json = JObj [(''error'', JStr ''Internal error'')] \<rparr>, []))
         \<and> (truthy (read_prop (js_or (req_body req) (JObj [])) ''productId'')
              \<and> truthy (read_prop (js_or (req_body req) (JObj [])) ''quantity'') \<longrightarrow>
              create_order v cfg up req =
                (\<lparr> status = 500, json = JObj [(''error'', JStr ''Internal error'')] \<rparr>, []))"
proof -
  have tok: "\<not> truthy (ADMIN_TOKEN cfg)"
    using assms by (cases v) (simp_all add: start_server_def load_config_def js_or_def)
  have started: "PORT srv = js_or (env_val e ''PORT'') (JNum (Num 3000)) \<and> cfg = load_config v e"
    using assms by (simp add: start_server_def)
  have call: "shopifyAdminGraphQL v cfg up sent q vars =
             (Inl (MissingToken (missing_token_message v)), sent)" for sent q vars
    using tok by (rule shopifyAdminGraphQL_no_token)
  have stock: "truthy (read_prop (req_query req) ''productId'') \<longrightarrow>
              get_stock v rt cfg up req =
                (\<lparr> status = 500, json = JObj [(''error'', JStr ''Internal error'')] \<rparr>, [])"
    by (simp add: get_stock_def get_stock_try_def catch_all_def internal_error_def call get_def)
  have order: "truthy (read_prop (js_or (req_body req) (JObj [])) ''productId'')
              \<and> truthy (read_prop (js_or (req_body req) (JObj [])) ''quantity'') \<longrightarrow>
              create_order v cfg up req =
                (\<lparr> status = 500, json = JObj [(''error'', JStr ''Internal error'')] \<rparr>, [])"
    by (simp add: create_order_def create_order_try_def catch_all_def internal_error_def call Let_def)
  from started call stock order show ?thesis by simp
qed

theorem missing_token_fails_per_request_witness:
  "\<not> truthy (env_val env_without_token ''SHOPIFY_ADMIN_TOKEN'')
   \<and> PORT (start_server Server_js env_without_token) = JNum (Num 3000)
   \<and> get_stock Server_js example_runtime (server_config (start_server Server_js env_without_token))
        (stock_upstream (product_with_inventory (JNum (Num 7)))) stock_request =
      (\<lparr> status = 500, json = JObj [(''error'', JStr ''Internal error'')] \<rparr>, [])
   \<and> create_order Server_js (server_config (start_server Server_js env_without_token))
        (order_upstream (product_with_edges one_edge) created_order)
        (order_request [(''productId'', JStr ''gid://shopify/Product/1''),
                        (''quantity'', JNum (Num 2))]) =
      (\<lparr> status = 500, json = JObj [(''error'', JStr ''Internal error'')] \<rparr>, [])"
proof -
  let ?req = "order_request [(''productId'', JStr ''gid://shopify/Product/1''),
                             (''quantity'', JNum (Num 2))]"
  have h: "\<not> truthy (env_val env_without_token ''SHOPIFY_ADMIN_TOKEN'')"
    by (simp add: env_val_def env_without_token_def)
  have p: "js_or (env_val env_without_token ''PORT'') (JNum (Num 3000)) = JNum (Num 3000)"
    by (simp add: env_val_def env_without_token_def js_or_def)
  have s: "truthy (read_prop (req_query stock_request) ''productId'')"
    by (simp add: stock_request_def)
  have o: "truthy (read_prop (js_or (req_body ?req) (JObj [])) ''productId'')
           \<and> truthy (read_prop (js_or (req_body ?req) (JObj [])) ''quantity'')"
    by (simp add: order_request_def js_or_def)
  show ?thesis
    using missing_token_fails_per_request
            [where v = Server_js and req = stock_request and rt = example_runtime
               and sent = "[]" and q = stock_query and vars = JNull
               and up = "stock_upstream (product_with_inventory (JNum (Num 7)))", OF h refl refl]
          missing_token_fails_per_request
            [where v = Server_js and req = ?req and rt = example_runtime
               and sent = "[]" and q = variant_query and vars = JNull
               and up = "order_upstream (product_with_edges one_edge) created_order", OF h refl refl]
          h p s o
    by (simp add: start_server_def)
qed

section \<open>The two copies of the server\<close>

lemma load_config_token_truthy:
  "truthy (ADMIN_TOKEN (load_config Part_000 e)) = truthy (ADMIN_TOKEN (load_config Server_js e))"
  by (simp add: load_config_def js_or_def)

lemma load_config_same:
  "truthy (ADMIN_TOKEN (load_config Server_js e)) \<Longrightarrow> load_config Part_000 e = load_config Server_js e"
  by (simp add: load_config_def js_or_def)

lemma get_stock_variant:
  "get_stock Part_000 rt cfg up req = get_stock Server_js rt cfg up req"
proof (cases "truthy (ADMIN_TOKEN cfg)")
  case True
  then show ?thesis
    by (cases "get (req_query req) ''productId''")
       (simp_all add: get_stock_def get_stock_try_def shopifyAdminGraphQL_token)
next
  case False
  then show ?thesis
    by (simp add: get_stock_def get_stock_try_def shopifyAdminGraphQL_no_token catch_all_def
          split: sum.splits)
qed

lemma get_stock_no_token:
  "\<not> truthy (ADMIN_TOKEN cfg) \<Longrightarrow> \<not> truthy (ADMIN_TOKEN cfg') \<Longrightarrow>
     get_stock v rt cfg up req = get_stock v' rt cfg' up req"
  by (simp add: get_stock_def get_stock_try_def shopifyAdminGraphQL_no_token catch_all_def
        split: sum.splits)

lemma create_order_no_token:
  "\<not> truthy (ADMIN_TOKEN cfg) \<Longrightarrow> \<not> truthy (ADMIN_TOKEN cfg') \<Longrightarrow>
     create_order v cfg up req = create_order v' cfg' up req"
  by (simp add: create_order_def create_order_try_def shopifyAdminGraphQL_no_token catch_all_def
        Let_def)

lemma create_order_variant_response:
  "fst (create_order Part_000 cfg (document_blind f) req) =
   fst (create_order Server_js cfg (document_blind f) req)"
proof (cases "truthy (ADMIN_TOKEN cfg)")
  case True
  then show ?thesis
    by (auto simp: create_order_def create_order_try_def shopifyAdminGraphQL_token catch_all_def
          Let_def document_blind_def content_def variable_values_def
          split: sum.splits option.splits)
next
  case False
  then show ?thesis by (simp add: create_order_no_token [of cfg cfg Part_000 _ _ Server_js])
qed

lemma create_order_variant_sent:
  "map content (snd (create_order Part_000 cfg (document_blind f) req)) =
   map content (snd (create_order Server_js cfg (document_blind f) req))"
proof (cases "truthy (ADMIN_TOKEN cfg)")
  case True
  then show ?thesis
    by (auto simp: create_order_def create_order_try_def shopifyAdminGraphQL_token catch_all_def
          Let_def document_blind_def content_def variable_values_def
          split: sum.splits option.splits)
next
  case False
  then show ?thesis by (simp add: create_order_no_token [of cfg cfg Part_000 _ _ Server_js])
qed

lemma create_order_variant_before_mutation:
  "length (snd (create_order Server_js cfg up req)) < 2 \<Longrightarrow>
     create_order Part_000 cfg up req = create_order Server_js cfg up req"
proof (cases "truthy (ADMIN_TOKEN cfg)")
  case True
  assume "length (snd (create_order Server_js cfg up req)) < 2"
  with True show ?thesis
    by (auto simp: create_order_def create_order_try_def shopifyAdminGraphQL_token catch_all_def
          Let_def split: sum.splits option.splits if_splits)
next
  case False
  then show ?thesis by (simp add: create_order_no_token [of cfg cfg Part_000 _ _ Server_js])
qed

lemma create_order_documents:
  "map query (snd (create_order v cfg up req)) =
     take (length (snd (create_order v cfg up req))) [variant_query, order_mutation v]"
proof (cases "truthy (ADMIN_TOKEN cfg)")
  case True
  then show ?thesis
    by (auto simp: create_order_def create_order_try_def shopifyAdminGraphQL_token catch_all_def
          Let_def split: sum.splits option.splits)
next
  case False
  then show ?thesis
    by (simp add: create_order_def create_order_try_def shopifyAdminGraphQL_no_token catch_all_def
          Let_def)
qed

text \<open>
  C9, as stated, fails for an upstream that reads the GraphQL document. Both copies are
  given the same environment, the same request and the same upstream, one that accepts
  the mutation of \<open>src/server.js\<close> and rejects any other: \<open>src/server.js\<close> answers
  200, the other copy 500.
\<close>

theorem variants_differ_counterexample:
  "status (fst (create_order Server_js (load_config Server_js env_with_token)
       (strict_upstream (product_with_edges one_edge) created_order)
       (order_request [(''productId'', JStr ''gid://shopify/Product/1''),
                       (''quantity'', JNum (Num 2))]))) = 200
   \<and> status (fst (create_order Part_000 (load_config Part_000 env_with_token)
       (strict_upstream (product_with_edges one_edge) created_order)
       (order_request [(''productId'', JStr ''gid://shopify/Product/1''),
                       (''quantity'', JNum (Num 2))]))) = 500"
  by (simp add: run_defs strict_upstream_def order_mutation_def graphql_error_message_def)

text \<open>
  C9, amended. The two copies are given the same environment, the same inbound request
  and the same upstream. For a stock request they give the same response and send the
  same requests, whatever the upstream. For an order request that ends before the
  mutation is sent they do too, whatever the upstream. For an order request in
  general they give the caller the same response provided the upstream does not read
  the GraphQL document or the names of the variables (an upstream whose answers are
  fixed in advance is such); the requests they send then have the same URL, token and
  variable values. The documents they send are the variant query and then the
  mutation; the mutation document and the name of its variable (\<open>order\<close> or \<open>input\<close>)
  differ between the copies.
\<close>

theorem variants_same_responses:
  "get_stock Part_000 rt (load_config Part_000 e) up req =
     get_stock Server_js rt (load_config Server_js e) up req
   \<and> (length (snd (create_order Server_js (load_config Server_js e) up req)) < 2 \<longrightarrow>
        create_order Part_000 (load_config Part_000 e) up req =
          create_order Server_js (load_config Server_js e) up req)
   \<and> fst (create_order Part_000 (load_config Part_000 e) (document_blind f) req) =
       fst (create_order Server_js (load_config Server_js e) (document_blind f) req)
   \<and> map content (snd (create_order Part_000 (load_config Part_000 e) (document_blind f) req)) =
       map content (snd (create_order Server_js (load_config Server_js e) (document_blind f) req))
   \<and> (\<forall>v. map query (snd (create_order v (load_config v e) up req)) =
            take (length (snd (create_order v (load_config v e) up req)))
                 [variant_query, order_mutation v])
   \<and> order_mutation Part_000 \<noteq> order_mutation Server_js
   \<and> order_variable Part_000 \<noteq> order_variable Server_js"
proof -
  have names: "order_mutation Part_000 \<noteq> order_mutation Server_js
               \<and> order_variable Part_000 \<noteq> order_variable Server_js"
    by (simp add: order_mutation_def order_variable_def)
  have documents: "\<forall>v. map query (snd (create_order v (load_config v e) up req)) =
            take (length (snd (create_order v (load_config v e) up req)))
                 [variant_query, order_mutation v]"
    by (simp add: create_order_documents)
  show ?thesis
  proof (cases "truthy (ADMIN_TOKEN (load_config Server_js e))")
    case True
    then have "load_config Part_000 e = load_config Server_js e" by (rule load_config_same)
    then show ?thesis
      using names documents
      by (simp add: get_stock_variant create_order_variant_response create_order_variant_sent
            create_order_variant_before_mutation)
  next
    case False
    then have b: "\<not> truthy (ADMIN_TOKEN (load_config Part_000 e))"
      by (simp add: load_config_token_truthy)
    have stock: "get_stock Part_000 rt (load_config Part_000 e) up req =
                   get_stock Server_js rt (load_config Server_js e) up req"
      using b False by (rule get_stock_no_token)
    have order: "create_order Part_000 (load_config Part_000 e) up' req =
                   create_order Server_js (load_config Server_js e) up' req" for up'
      using b False by (rule create_order_no_token)
    from stock order names documents show ?thesis by simp
  qed
qed

theorem variants_same_responses_witness:
  "fst (create_order Part_000 (load_config Part_000 env_with_token)
          (document_blind (order_outcomes (product_with_edges one_edge) created_order))
          (order_request [(''productId'', JStr ''gid://shopify/Product/1''),
                          (''quantity'', JNum (Num 2))])) =
   fst (create_order Server_js (load_config Server_js env_with_token)
          (document_blind (order_outcomes (product_with_edges one_edge) created_order))
          (order_request [(''productId'', JStr ''gid://shopify/Product/1''),
                          (''quantity'', JNum (Num 2))]))
   \<and> fst (create_order Server_js (load_config Server_js env_with_token)
          (document_blind (order_outcomes (product_with_edges one_edge) created_order))
          (order_request [(''productId'', JStr ''gid://shopify/Product/1''),
                          (''quantity'', JNum (Num 2))])) =
       \<lparr> status = 200,
          json = JObj [(''success'', JBool True), (''order'', read_prop created_order ''order'')] \<rparr>"
  using variants_same_responses
          [where e = env_with_token and rt = example_runtime
             and f = "order_outcomes (product_with_edges one_edge) created_order"
             and up = "document_blind (order_outcomes (product_with_edges one_edge) created_order)"
             and req = "order_request [(''productId'', JStr ''gid://shopify/Product/1''),
                                       (''quantity'', JNum (Num 2))]"]
  by (simp add: run_defs document_blind_def order_outcomes_def)

end
